theory Spec2Isabelle
  imports Complex_Main "HOL-Library.Sublist" "HOL-Library.Multiset"
begin

section \<open>Python strings and dictionaries\<close>

text \<open>
  Strings are lists of characters. The development reads them as ASCII text: one
  \<^typ>\<open>char\<close> per code point, and \<open>str.lower\<close> maps the letters A to Z and leaves every
  other character alone. The float scores of the program are read as real numbers
  (rounding is not modelled).
\<close>

definition lower_char :: "char \<Rightarrow> char" where
  "lower_char c =
     (case map_of (zip ''ABCDEFGHIJKLMNOPQRSTUVWXYZ'' ''abcdefghijklmnopqrstuvwxyz'') c of
        None \<Rightarrow> c
      | Some l \<Rightarrow> l)"

definition lower :: "string \<Rightarrow> string" where
  "lower s = map lower_char s"

text \<open>\<open>sub in s\<close>: \<open>sub\<close> occurs in \<open>s\<close> as a contiguous substring.\<close>

fun str_contains :: "string \<Rightarrow> string \<Rightarrow> bool" where
  "str_contains sub [] = (sub = [])"
| "str_contains sub (c # cs) = (prefix sub (c # cs) \<or> str_contains sub cs)"

text \<open>
  \<open>s.count(sub)\<close>: the number of non-overlapping occurrences, scanning from the left;
  the empty string occurs \<open>len(s) + 1\<close> times.
\<close>

function str_count_from :: "string \<Rightarrow> string \<Rightarrow> nat" where
  "str_count_from sub [] = 0"
| "str_count_from sub (c # cs) =
     (if sub \<noteq> [] \<and> prefix sub (c # cs)
      then Suc (str_count_from sub (drop (length sub) (c # cs)))
      else str_count_from sub cs)"
  by pat_completeness auto
termination
  by (relation "measure (\<lambda>(sub, s). length s)") (auto simp: Suc_le_eq)

definition str_count :: "string \<Rightarrow> string \<Rightarrow> nat" where
  "str_count sub s = (if sub = [] then length s + 1 else str_count_from sub s)"

text \<open>\<open>sep.join(xs)\<close>.\<close>

fun str_join :: "string \<Rightarrow> string list \<Rightarrow> string" where
  "str_join sep [] = []"
| "str_join sep [x] = x"
| "str_join sep (x # y # ys) = x @ sep @ str_join sep (y # ys)"

text \<open>
  A dictionary is an association list in insertion order with distinct keys.
  \<open>d[k] = v\<close> replaces the value of a key already present, in place, and appends a
  new key at the end; \<open>d.get(k, default)\<close> looks a key up.
\<close>

fun dict_set :: "('k \<times> 'v) list \<Rightarrow> 'k \<Rightarrow> 'v \<Rightarrow> ('k \<times> 'v) list" where
  "dict_set [] k v = [(k, v)]"
| "dict_set ((k', v') # d) k v =
     (if k' = k then (k, v) # d else (k', v') # dict_set d k v)"

definition dict_get :: "('k \<times> 'v) list \<Rightarrow> 'k \<Rightarrow> 'v \<Rightarrow> 'v" where
  "dict_get d k dflt = (case map_of d k of None \<Rightarrow> dflt | Some v \<Rightarrow> v)"

text \<open>
  \<open>sorted(xs, key=key, reverse=True)\<close>: the list is reversed, sorted stably in
  ascending order of the key, and reversed again.
\<close>

definition sorted_reverse :: "('a \<Rightarrow> 'k::linorder) \<Rightarrow> 'a list \<Rightarrow> 'a list" where
  "sorted_reverse key xs = rev (sort_key key (rev xs))"

section \<open>JobDescriptionAnalyzer: keywords and their scores\<close>

definition PM_KEYWORDS :: "(string \<times> string list) list" where
  "PM_KEYWORDS =
    [(''core_skills'',
       [''product management'', ''product strategy'', ''roadmap'', ''user stories'',
        ''agile'', ''scrum'', ''kanban'', ''sprint planning'', ''backlog management'',
        ''stakeholder management'', ''cross-functional'', ''data analysis'',
        ''market research'', ''competitive analysis'', ''user research'', ''ux/ui'',
        ''metrics'', ''kpis'', ''analytics'', ''a/b testing'', ''experimentation'']),
     (''technical_skills'',
       [''sql'', ''python'', ''jira'', ''confluence'', ''figma'', ''sketch'',
        ''google analytics'', ''mixpanel'', ''amplitude'', ''tableau'',
        ''api'', ''sdk'', ''aws'', ''azure'', ''gcp'', ''docker'', ''kubernetes'']),
     (''soft_skills'',
       [''leadership'', ''communication'', ''collaboration'', ''problem solving'',
        ''critical thinking'', ''decision making'', ''negotiation'',
        ''presentation'', ''mentoring'', ''coaching'', ''influence'']),
     (''industries'',
       [''saas'', ''fintech'', ''healthcare'', ''e-commerce'', ''mobile'',
        ''enterprise'', ''b2b'', ''b2c'', ''marketplace'', ''platform''])]"

text \<open>
  The keyword loop of \<open>analyze\<close>, for any keyword table: every category gets the list
  of its phrases that occur in the lowercased text, each with its occurrence count.
\<close>

definition find_in_category :: "string \<Rightarrow> string list \<Rightarrow> (string \<times> nat) list" where
  "find_in_category jd_lower kws =
     map (\<lambda>keyword. (keyword, str_count keyword jd_lower))
       (filter (\<lambda>keyword. str_contains keyword jd_lower) kws)"

definition find_keywords ::
  "(string \<times> string list) list \<Rightarrow> string \<Rightarrow> (string \<times> (string \<times> nat) list) list" where
  "find_keywords table jd_lower =
     map (\<lambda>(category, kws). (category, find_in_category jd_lower kws)) table"

definition category_weights :: "(string \<times> real) list" where
  "category_weights =
     [(''core_skills'', 1.0), (''technical_skills'', 0.8),
      (''soft_skills'', 0.6), (''industries'', 0.7)]"

definition score_category ::
  "real \<Rightarrow> (string \<times> real) list \<Rightarrow> (string \<times> nat) list \<Rightarrow> (string \<times> real) list" where
  "score_category weight scores kws =
     foldl (\<lambda>sc (keyword, count). dict_set sc keyword (real count * weight)) scores kws"

definition calculate_keyword_scores ::
  "(string \<times> (string \<times> nat) list) list \<Rightarrow> (string \<times> real) list" where
  "calculate_keyword_scores found =
     foldl (\<lambda>scores (category, kws).
              score_category (dict_get category_weights category 0.5) scores kws)
       [] found"

section \<open>The profile\<close>

record experience =
  title :: string
  company :: string
  duration :: string
  achievements :: "string list"
  skills :: "string list"
  relevance_score :: real

record education_entry =
  degree :: string
  institution :: string
  year :: string
  details :: "string list option"

record user_profile =
  name :: string
  email :: string
  phone :: string
  linkedin :: string
  location :: string
  summary :: string
  experiences :: "experience list"
  education :: "education_entry list"
  profile_skills :: "string list"
  certifications :: "string list"
  languages :: "string list"

section \<open>ResumeTailor: ranking, summary and skills over a keyword score map\<close>

text \<open>
  The score of one experience: the sum of the scores of the keywords that occur in
  its lowercased text, plus 5 when the lowercased title contains a PM title.
\<close>

definition experience_text :: "experience \<Rightarrow> string" where
  "experience_text ex =
     lower (title ex @ '' '' @ company ex @ '' '' @ str_join '' '' (achievements ex)
            @ '' '' @ str_join '' '' (skills ex))"

definition pm_titles :: "string list" where
  "pm_titles = [''product manager'', ''product owner'', ''pm'']"

definition has_pm_title :: "experience \<Rightarrow> bool" where
  "has_pm_title ex = list_ex (\<lambda>t. str_contains t (lower (title ex))) pm_titles"

definition keyword_sum :: "(string \<times> real) list \<Rightarrow> string \<Rightarrow> real" where
  "keyword_sum keyword_scores exp_text =
     foldl (\<lambda>score (keyword, kw_score).
              if str_contains keyword exp_text then score + kw_score else score)
       0 keyword_scores"

definition experience_score :: "(string \<times> real) list \<Rightarrow> experience \<Rightarrow> real" where
  "experience_score keyword_scores ex =
     (let score = keyword_sum keyword_scores (experience_text ex)
      in if has_pm_title ex then score + 5 else score)"

text \<open>
  \<open>_score_experiences\<close> writes the score into every experience of the profile and
  returns them sorted. The caller's experiences after the call are the second
  component of the result.
\<close>

definition score_experiences ::
  "(string \<times> real) list \<Rightarrow> experience list \<Rightarrow> experience list \<times> experience list" where
  "score_experiences keyword_scores exps =
     (let scored_experiences =
            map (\<lambda>ex. ex\<lparr>relevance_score := experience_score keyword_scores ex\<rparr>) exps
      in (sorted_reverse relevance_score scored_experiences, scored_experiences))"

definition skill_score :: "(string \<times> real) list \<Rightarrow> string \<Rightarrow> real" where
  "skill_score keyword_scores skill =
     (let score = dict_get keyword_scores (lower skill) 0
      in if lower skill \<in> set (map fst keyword_scores) then score + 2 else score)"

definition prioritize_skills :: "(string \<times> real) list \<Rightarrow> string list \<Rightarrow> string list" where
  "prioritize_skills keyword_scores user_skills =
     map fst (sorted_reverse snd
       (map (\<lambda>skill. (skill, skill_score keyword_scores skill)) user_skills))"

definition themes_of :: "(string \<times> real) list \<Rightarrow> string list" where
  "themes_of top_keywords =
     (if list_ex (\<lambda>kw. str_contains ''agile'' (fst kw) \<or> str_contains ''scrum'' (fst kw))
           top_keywords
      then [''agile methodologies''] else [])
     @ (if list_ex (\<lambda>kw. str_contains ''data'' (fst kw) \<or> str_contains ''analytics'' (fst kw))
           top_keywords
        then [''data-driven decision making''] else [])
     @ (if list_ex (\<lambda>kw. str_contains ''stakeholder'' (fst kw)
                          \<or> str_contains ''cross-functional'' (fst kw)) top_keywords
        then [''stakeholder management''] else [])"

definition optimize_summary ::
  "string \<Rightarrow> (string \<times> real) list \<Rightarrow> string list option \<Rightarrow> string" where
  "optimize_summary base_summary keyword_scores focus_areas =
     (let top_keywords = take 8 (sorted_reverse snd keyword_scores);
          themes = themes_of top_keywords;
          keyword_phrase = str_join '', '' (map fst (take 5 top_keywords));
          optimized = base_summary @ '' Specialized in '' @ keyword_phrase
      in (if themes \<noteq> []
          then optimized @ '' with proven expertise in '' @ str_join '', '' themes
          else optimized) @ ''.'')"

section \<open>JobDescriptionAnalyzer: requirement sections\<close>

text \<open>
  The character classes of the regular expressions, on ASCII text: \<open>\s\<close> (also the
  characters \<open>str.strip\<close> removes), the letters \<open>[A-Z]\<close> matches when case is
  ignored, and \<open>\d\<close>.
\<close>

definition is_space :: "char \<Rightarrow> bool" where
  "is_space c = (let n = (of_char c :: nat) in (9 \<le> n \<and> n \<le> 13) \<or> (28 \<le> n \<and> n \<le> 32))"

definition is_alpha :: "char \<Rightarrow> bool" where
  "is_alpha c = (let n = (of_char c :: nat) in (65 \<le> n \<and> n \<le> 90) \<or> (97 \<le> n \<and> n \<le> 122))"

definition is_digit :: "char \<Rightarrow> bool" where
  "is_digit c = (let n = (of_char c :: nat) in 48 \<le> n \<and> n \<le> 57)"

definition strip :: "string \<Rightarrow> string" where
  "strip s = rev (dropWhile is_space (rev (dropWhile is_space s)))"

text \<open>
  The lookahead \<open>(?=\n\s*[A-Z][^:]*:|\n\s*$)\<close> that ends a section, tested on the text
  from the current position: a newline, then either a heading (after the white
  space a letter, and a colon somewhere later) or nothing but white space up to the
  end of the text.
\<close>

definition section_end :: "string \<Rightarrow> bool" where
  "section_end t =
     (case t of
        [] \<Rightarrow> False
      | c # r \<Rightarrow> c = CHR 0x0A \<and>
          (case dropWhile is_space r of
             [] \<Rightarrow> True
           | d # r' \<Rightarrow> is_alpha d \<and> CHR '':'' \<in> set r'))"

text \<open>
  The tail \<open>\s*(.*?)(?=...)\<close> shared by the four patterns, as the backtracking matcher
  settles it: \<open>\s*\<close> takes the whole run of white space and the lazy group stops at
  the first position where the lookahead holds (\<open>first_end\<close>); when there is none, the
  matcher gives white space back and the group is empty, ending at the last position
  of the run where the lookahead holds (\<open>last_end_in_ws\<close>). The result is the group
  and the text that follows the match.
\<close>

fun first_end :: "string \<Rightarrow> string \<Rightarrow> (string \<times> string) option" where
  "first_end g [] = None"
| "first_end g (c # cs) =
     (if section_end (c # cs) then Some (g, c # cs) else first_end (g @ [c]) cs)"

fun last_end_in_ws :: "string \<Rightarrow> string option" where
  "last_end_in_ws [] = None"
| "last_end_in_ws (c # cs) =
     (if is_space c
      then (case last_end_in_ws cs of
              Some r \<Rightarrow> Some r
            | None \<Rightarrow> if section_end (c # cs) then Some (c # cs) else None)
      else None)"

definition match_section :: "string \<Rightarrow> (string \<times> string) option" where
  "match_section t =
     (case first_end [] (dropWhile is_space t) of
        Some r \<Rightarrow> Some r
      | None \<Rightarrow> map_option (\<lambda>r. ([], r)) (last_end_in_ws t))"

text \<open>An optional character (\<open>s?\<close>, \<open>:?\<close>) and a literal, both matched ignoring case.\<close>

definition opt_char :: "char \<Rightarrow> string \<Rightarrow> string" where
  "opt_char c t = (case t of [] \<Rightarrow> [] | d # r \<Rightarrow> if lower_char d = c then r else t)"

definition iprefix :: "string \<Rightarrow> string \<Rightarrow> bool" where
  "iprefix lit t = prefix lit (lower t)"

text \<open>
  The four patterns, each as a matcher at one start position:
  \<open>requirements?:?\<close>, \<open>qualifications?:?\<close>, \<open>what you.{0,20}need:?\<close> (the gap is tried
  from the longest, at most 20 characters, down to none) and \<open>you should have:?\<close>.
\<close>

definition match_plural :: "string \<Rightarrow> string \<Rightarrow> (string \<times> string) option" where
  "match_plural lit t =
     (if iprefix lit t
      then match_section (opt_char CHR '':'' (opt_char CHR ''s'' (drop (length lit) t)))
      else None)"

definition need_at :: "string \<Rightarrow> nat \<Rightarrow> (string \<times> string) option" where
  "need_at a n =
     (if iprefix ''need'' (drop n a)
      then match_section (opt_char CHR '':'' (drop (n + 4) a))
      else None)"

fun try_need :: "string \<Rightarrow> nat \<Rightarrow> (string \<times> string) option" where
  "try_need a 0 = need_at a 0"
| "try_need a (Suc n) =
     (case need_at a (Suc n) of Some r \<Rightarrow> Some r | None \<Rightarrow> try_need a n)"

definition match_need :: "string \<Rightarrow> (string \<times> string) option" where
  "match_need t =
     (if iprefix ''what you'' t
      then (let a = drop 8 t in try_need a (min 20 (length a)))
      else None)"

definition match_have :: "string \<Rightarrow> (string \<times> string) option" where
  "match_have t =
     (if iprefix ''you should have'' t
      then match_section (opt_char CHR '':'' (drop 15 t))
      else None)"

definition req_patterns :: "(string \<Rightarrow> (string \<times> string) option) list" where
  "req_patterns =
     [match_plural ''requirement'', match_plural ''qualification'', match_need, match_have]"

text \<open>
  \<open>re.finditer\<close>: the matches from left to right, none overlapping another; the
  search goes on where the last match ended. The result lists group 1 of each.
\<close>

fun finditer :: "(string \<Rightarrow> (string \<times> string) option) \<Rightarrow> nat \<Rightarrow> string \<Rightarrow> string list" where
  "finditer m skip [] = []"
| "finditer m skip (c # cs) =
     (if 0 < skip then finditer m (skip - 1) cs
      else (case m (c # cs) of
              None \<Rightarrow> finditer m 0 cs
            | Some (g, rest) \<Rightarrow> g # finditer m (length cs - length rest) cs))"

text \<open>
  The separator \<open>[...\-\*]\s*|^\s*\d+\.?\s*\<close> of \<open>re.split\<close> (MULTILINE), tested at one
  position; \<open>bol\<close> says that the position starts a line. The result is the length of
  the match. On ASCII text the bullet class is the hyphen and the asterisk: its other
  members are not ASCII characters.
\<close>

definition sep_len :: "bool \<Rightarrow> string \<Rightarrow> nat option" where
  "sep_len bol t =
     (case t of
        [] \<Rightarrow> None
      | c # r \<Rightarrow>
          if c = CHR ''-'' \<or> c = CHR ''*'' then Some (1 + length (takeWhile is_space r))
          else if bol then
            (let ws = takeWhile is_space t;
                 ds = takeWhile is_digit (dropWhile is_space t);
                 r2 = dropWhile is_digit (dropWhile is_space t);
                 r3 = opt_char CHR ''.'' r2
             in if ds = [] then None
                else Some (length ws + length ds + (length r2 - length r3)
                           + length (takeWhile is_space r3)))
          else None)"

fun re_split :: "bool \<Rightarrow> nat \<Rightarrow> string \<Rightarrow> string \<Rightarrow> string list" where
  "re_split bol skip cur [] = [cur]"
| "re_split bol skip cur (c # cs) =
     (if 0 < skip then re_split (c = CHR 0x0A) (skip - 1) cur cs
      else (case sep_len bol (c # cs) of
              Some n \<Rightarrow> cur # re_split (c = CHR 0x0A) (n - 1) [] cs
            | None \<Rightarrow> re_split (c = CHR 0x0A) 0 (cur @ [c]) cs))"

definition section_items :: "string \<Rightarrow> string list" where
  "section_items g =
     filter (\<lambda>item. item \<noteq> []) (map strip (re_split True 0 [] (strip g)))"

definition extract_requirements :: "string \<Rightarrow> string list" where
  "extract_requirements jd =
     take 10 (concat (map (\<lambda>pattern. concat (map section_items (finditer pattern 0 jd)))
                        req_patterns))"

section \<open>JobDescriptionAnalyzer: company info, summary and \<open>analyze\<close>\<close>

datatype error = AttributeError | KeyError | ValueError

record company_info =
  industry :: string
  company_size :: string
  stage :: string
  culture :: "string list"

definition extract_company_info :: "string \<Rightarrow> error + company_info" where
  "extract_company_info jd =
     (let jd_lower = lower jd in
      case map_of PM_KEYWORDS ''industries'' of
        None \<Rightarrow> Inl KeyError
      | Some industries \<Rightarrow>
          Inr \<lparr>industry =
                 (case find (\<lambda>i. str_contains i jd_lower) industries of
                    None \<Rightarrow> [] | Some i \<Rightarrow> i),
               company_size = [],
               stage =
                 (if list_ex (\<lambda>term. str_contains term jd_lower)
                       [''startup'', ''early stage'', ''seed'']
                  then ''startup''
                  else if list_ex (\<lambda>term. str_contains term jd_lower)
                            [''enterprise'', ''fortune'', ''large'']
                  then ''enterprise'' else []),
               culture = []\<rparr>)"

text \<open>The decimal digits of a natural number, as an f-string prints it.\<close>

function str_of_nat :: "nat \<Rightarrow> string" where
  "str_of_nat n =
     (if n < 10 then [''0123456789'' ! n]
      else str_of_nat (n div 10) @ [''0123456789'' ! (n mod 10)])"
  by pat_completeness auto
termination
  by (relation "measure id") auto

declare str_of_nat.simps [simp del]

definition generate_analysis_summary ::
  "(string \<times> (string \<times> nat) list) list \<Rightarrow> string list \<Rightarrow> string" where
  "generate_analysis_summary found reqs =
     (let total_keywords = sum_list (map (\<lambda>x. length (snd x)) found);
          top_categories = take 3 (sorted_reverse (\<lambda>x. length (snd x)) found)
      in ''Found '' @ str_of_nat total_keywords @ '' relevant PM keywords. ''
         @ ''Top focus areas: '' @ str_join '', '' (map fst top_categories) @ ''. ''
         @ ''Identified '' @ str_of_nat (length reqs) @ '' key requirements.'')"

record jd_analysis =
  found_keywords :: "(string \<times> (string \<times> nat) list) list"
  keyword_scores :: "(string \<times> real) list"
  requirements :: "string list"
  company_info :: company_info
  analysis_summary :: string

text \<open>
  \<open>analyze\<close>. The argument is optional because a caller can pass \<open>None\<close>, on which
  \<open>job_description.lower()\<close> raises.
\<close>

definition analyze :: "string option \<Rightarrow> error + jd_analysis" where
  "analyze job_description =
     (case job_description of
        None \<Rightarrow> Inl AttributeError
      | Some jd \<Rightarrow>
          (let found = find_keywords PM_KEYWORDS (lower jd);
               reqs = extract_requirements jd
           in case extract_company_info jd of
                Inl e \<Rightarrow> Inl e
              | Inr info \<Rightarrow>
                  Inr \<lparr>found_keywords = found,
                       keyword_scores = calculate_keyword_scores found,
                       requirements = reqs,
                       company_info = info,
                       analysis_summary = generate_analysis_summary found reqs\<rparr>))"

section \<open>ResumeTailor: \<open>tailor_resume\<close>\<close>

text \<open>\<open>max(items, key=key)\<close>: the first of the largest items; no items is an error.\<close>

definition max_by :: "('a \<Rightarrow> nat) \<Rightarrow> 'a list \<Rightarrow> error + 'a" where
  "max_by key xs =
     (case xs of
        [] \<Rightarrow> Inl ValueError
      | x # rest \<Rightarrow> Inr (foldl (\<lambda>best y. if key best < key y then y else best) x rest))"

definition replace_char :: "char \<Rightarrow> char \<Rightarrow> string \<Rightarrow> string" where
  "replace_char old new s = map (\<lambda>c. if c = old then new else c) s"

definition generate_optimization_notes :: "jd_analysis \<Rightarrow> error + string list" where
  "generate_optimization_notes analysis =
     (let total_keywords = sum_list (map (\<lambda>x. length (snd x)) (found_keywords analysis))
      in case max_by (\<lambda>x. length (snd x)) (found_keywords analysis) of
           Inl e \<Rightarrow> Inl e
         | Inr top_item \<Rightarrow>
             Inr [''Optimized for '' @ str_of_nat total_keywords
                    @ '' relevant PM keywords from job description'',
                  ''Emphasized '' @ replace_char CHR ''_'' CHR '' '' (fst top_item)
                    @ '' based on job requirements'',
                  ''Reordered experiences by relevance score'',
                  ''Prioritized skills matching job description''])"

record personal_info =
  info_name :: string
  info_email :: string
  info_phone :: string
  info_linkedin :: string
  info_location :: string

record tailored_resume =
  personal :: personal_info
  resume_summary :: string
  resume_experiences :: "experience list"
  resume_skills :: "string list"
  resume_education :: "education_entry list"
  resume_certifications :: "string list"
  job_analysis :: jd_analysis
  optimization_notes :: "string list"

text \<open>
  \<open>tailor_resume\<close> returns the resume and the caller's profile as the call leaves it:
  the ranking step has written a score into each of its experiences.
\<close>

definition tailor_resume ::
  "user_profile \<Rightarrow> string option \<Rightarrow> string list option
     \<Rightarrow> error + (tailored_resume \<times> user_profile)" where
  "tailor_resume profile job_description focus_areas =
     (case analyze job_description of
        Inl e \<Rightarrow> Inl e
      | Inr analysis \<Rightarrow>
          (let (scored_experiences, exps') =
                 score_experiences (keyword_scores analysis) (experiences profile);
               profile' = profile\<lparr>experiences := exps'\<rparr>;
               tailored_summary =
                 optimize_summary (summary profile') (keyword_scores analysis) focus_areas;
               prioritized_skills =
                 prioritize_skills (keyword_scores analysis) (profile_skills profile')
           in case generate_optimization_notes analysis of
                Inl e \<Rightarrow> Inl e
              | Inr notes \<Rightarrow>
                  Inr (\<lparr>personal =
                          \<lparr>info_name = name profile', info_email = email profile',
                           info_phone = phone profile', info_linkedin = linkedin profile',
                           info_location = location profile'\<rparr>,
                        resume_summary = tailored_summary,
                        resume_experiences = take 5 scored_experiences,
                        resume_skills = take 15 prioritized_skills,
                        resume_education = education profile',
                        resume_certifications = certifications profile',
                        job_analysis = analysis,
                        optimization_notes = notes\<rparr>,
                       profile')))"

section \<open>The analyzer over another keyword table\<close>

text \<open>
  The analyzer reads its table through the class attribute \<open>self.PM_KEYWORDS\<close>.
  \<open>extract_company_info_in\<close>, \<open>analyze_in\<close> and \<open>tailor_resume_in\<close> are
  \<open>_extract_company_info\<close>, \<open>analyze\<close> and \<open>tailor_resume\<close> with that attribute as a
  parameter, for an analyzer whose table is not the shipped one; on \<open>PM_KEYWORDS\<close>
  they are the functions above. \<open>self.PM_KEYWORDS['industries']\<close> raises \<open>KeyError\<close>
  on a table without that category. \<open>empty_categories\<close> is the shipped table with
  every phrase removed.
\<close>

definition extract_company_info_in ::
  "(string \<times> string list) list \<Rightarrow> string \<Rightarrow> error + company_info" where
  "extract_company_info_in table jd =
     (let jd_lower = lower jd in
      case map_of table ''industries'' of
        None \<Rightarrow> Inl KeyError
      | Some industries \<Rightarrow>
          Inr \<lparr>industry =
                 (case find (\<lambda>i. str_contains i jd_lower) industries of
                    None \<Rightarrow> [] | Some i \<Rightarrow> i),
               company_size = [],
               stage =
                 (if list_ex (\<lambda>term. str_contains term jd_lower)
                       [''startup'', ''early stage'', ''seed'']
                  then ''startup''
                  else if list_ex (\<lambda>term. str_contains term jd_lower)
                            [''enterprise'', ''fortune'', ''large'']
                  then ''enterprise'' else []),
               culture = []\<rparr>)"

definition analyze_in ::
  "(string \<times> string list) list \<Rightarrow> string option \<Rightarrow> error + jd_analysis" where
  "analyze_in table job_description =
     (case job_description of
        None \<Rightarrow> Inl AttributeError
      | Some jd \<Rightarrow>
          (let found = find_keywords table (lower jd);
               reqs = extract_requirements jd
           in case extract_company_info_in table jd of
                Inl e \<Rightarrow> Inl e
              | Inr info \<Rightarrow>
                  Inr \<lparr>found_keywords = found,
                       keyword_scores = calculate_keyword_scores found,
                       requirements = reqs,
                       company_info = info,
                       analysis_summary = generate_analysis_summary found reqs\<rparr>))"

definition tailor_resume_in ::
  "(string \<times> string list) list \<Rightarrow> user_profile \<Rightarrow> string option \<Rightarrow> string list option
     \<Rightarrow> error + (tailored_resume \<times> user_profile)" where
  "tailor_resume_in table profile job_description focus_areas =
     (case analyze_in table job_description of
        Inl e \<Rightarrow> Inl e
      | Inr analysis \<Rightarrow>
          (let (scored_experiences, exps') =
                 score_experiences (keyword_scores analysis) (experiences profile);
               profile' = profile\<lparr>experiences := exps'\<rparr>;
               tailored_summary =
                 optimize_summary (summary profile') (keyword_scores analysis) focus_areas;
               prioritized_skills =
                 prioritize_skills (keyword_scores analysis) (profile_skills profile')
           in case generate_optimization_notes analysis of
                Inl e \<Rightarrow> Inl e
              | Inr notes \<Rightarrow>
                  Inr (\<lparr>personal =
                          \<lparr>info_name = name profile', info_email = email profile',
                           info_phone = phone profile', info_linkedin = linkedin profile',
                           info_location = location profile'\<rparr>,
                        resume_summary = tailored_summary,
                        resume_experiences = take 5 scored_experiences,
                        resume_skills = take 15 prioritized_skills,
                        resume_education = education profile',
                        resume_certifications = certifications profile',
                        job_analysis = analysis,
                        optimization_notes = notes\<rparr>,
                       profile')))"

definition empty_categories :: "(string \<times> string list) list" where
  "empty_categories =
     [(''core_skills'', []), (''technical_skills'', []), (''soft_skills'', []),
      (''industries'', [])]"

section \<open>Resetting the scores, and sample data\<close>

text \<open>
  The relevance scores of a profile reset to the default of the \<open>Experience\<close>
  dataclass; two profiles with the same reset differ in their scores at most.
\<close>

definition reset_scores :: "user_profile \<Rightarrow> user_profile" where
  "reset_scores profile =
     profile\<lparr>experiences := map (\<lambda>ex. ex\<lparr>relevance_score := 0\<rparr>) (experiences profile)\<rparr>"

definition sample_experience :: "string \<Rightarrow> string list \<Rightarrow> experience" where
  "sample_experience t sk =
     \<lparr>title = t, company = ''Acme'', duration = ''2020'', achievements = [],
      skills = sk, relevance_score = 0\<rparr>"

definition sample_profile :: "experience list \<Rightarrow> string list \<Rightarrow> user_profile" where
  "sample_profile exps sk =
     \<lparr>name = ''Ada'', email = ''ada@example.org'', phone = ''555'', linkedin = ''in/ada'',
      location = ''London'', summary = ''Builder.'', experiences = exps, education = [],
      profile_skills = sk, certifications = [], languages = []\<rparr>"

section \<open>Dictionaries and sorting: basic facts\<close>

lemma map_of_dict_set: "map_of (dict_set d k v) = (map_of d)(k \<mapsto> v)"
  by (induction d) auto

lemma keys_dict_set: "fst ` set (dict_set d k v) = insert k (fst ` set d)"
  by (induction d) force+

lemma distinct_dict_set: "distinct (map fst d) \<Longrightarrow> distinct (map fst (dict_set d k v))"
  by (induction d) (auto simp: keys_dict_set)

lemma set_dict_set: "set (dict_set d k v) \<subseteq> insert (k, v) (set d)"
  by (induction d) (auto split: if_splits)

lemma sorted_reverse_mset: "mset (sorted_reverse key xs) = mset xs"
  by (simp add: sorted_reverse_def)

lemma sorted_reverse_length: "length (sorted_reverse key xs) = length xs"
  by (simp add: sorted_reverse_def)

lemma sorted_reverse_stable:
  "filter (\<lambda>x. key x = k) (sorted_reverse key xs) = filter (\<lambda>x. key x = k) xs"
  by (simp add: sorted_reverse_def rev_filter[symmetric] sort_key_stable)

lemma sorted_reverse_descending: "sorted (rev (map key (sorted_reverse key xs)))"
  by (simp add: sorted_reverse_def rev_map[symmetric])

section \<open>The keyword score map\<close>

lemma map_of_score_category:
  "map_of (score_category w sc (find_in_category jd kws)) k =
     (if k \<in> set kws \<and> str_contains k jd then Some (real (str_count k jd) * w)
      else map_of sc k)"
  unfolding score_category_def find_in_category_def
  by (induction kws arbitrary: sc) (auto simp: map_of_dict_set)

lemma distinct_score_category:
  "distinct (map fst sc) \<Longrightarrow> distinct (map fst (score_category w sc kws))"
  unfolding score_category_def
  by (induction kws arbitrary: sc) (auto simp: distinct_dict_set)

lemma nonneg_score_category:
  "0 \<le> w \<Longrightarrow> \<forall>(k, v) \<in> set sc. 0 \<le> v
     \<Longrightarrow> \<forall>(k, v) \<in> set (score_category w sc kws). 0 \<le> v"
  unfolding score_category_def
proof (induction kws arbitrary: sc)
  case Nil
  then show ?case by simp
next
  case (Cons a kws)
  obtain k n where a: "a = (k, n)" by (cases a)
  have "\<forall>(k', v) \<in> set (dict_set sc k (real n * w)). 0 \<le> v"
    using set_dict_set[of sc k "real n * w"] Cons.prems by auto
  from Cons.IH[OF Cons.prems(1) this] show ?case by (simp add: a)
qed

lemma weight_nonneg: "0 \<le> dict_get category_weights c 0.5"
  by (simp add: dict_get_def category_weights_def)

lemma calculate_snoc:
  "calculate_keyword_scores (found @ [(c, kws)]) =
     score_category (dict_get category_weights c 0.5) (calculate_keyword_scores found) kws"
  by (simp add: calculate_keyword_scores_def)

lemma map_of_keyword_scores:
  "map_of (calculate_keyword_scores (find_keywords table jd)) k =
     (if str_contains k jd \<and> (\<exists>(c, kws) \<in> set table. k \<in> set kws)
      then Some (real (str_count k jd) *
                 dict_get category_weights
                   (fst (last (filter (\<lambda>(c, kws). k \<in> set kws) table))) 0.5)
      else None)"
proof (induction table rule: rev_induct)
  case Nil
  show ?case by (simp add: calculate_keyword_scores_def find_keywords_def)
next
  case (snoc x table)
  obtain c kws where x: "x = (c, kws)" by (cases x)
  have "find_keywords (table @ [x]) jd = find_keywords table jd @ [(c, find_in_category jd kws)]"
    by (simp add: find_keywords_def x)
  then show ?case
    using snoc by (auto simp: calculate_snoc map_of_score_category x)
qed

lemma keyword_scores_dict:
  "distinct (map fst (calculate_keyword_scores found)) \<and>
   (\<forall>(k, v) \<in> set (calculate_keyword_scores found). 0 \<le> v)"
proof (induction found rule: rev_induct)
  case Nil
  show ?case by (simp add: calculate_keyword_scores_def)
next
  case (snoc x found)
  obtain c kws where x: "x = (c, kws)" by (cases x)
  have "distinct (map fst (calculate_keyword_scores (found @ [x])))"
    using snoc by (simp add: x calculate_snoc distinct_score_category)
  moreover have "\<forall>(k, v) \<in> set (calculate_keyword_scores (found @ [x])). 0 \<le> v"
    unfolding x calculate_snoc
    by (rule nonneg_score_category[OF weight_nonneg]) (use snoc in simp)
  ultimately show ?case by simp
qed

lemma industries_present: "\<exists>inds. map_of PM_KEYWORDS ''industries'' = Some inds"
  by (simp add: PM_KEYWORDS_def)

lemma analyze_Some:
  "\<exists>info. extract_company_info jd = Inr info \<and>
     analyze (Some jd) =
       Inr \<lparr>found_keywords = find_keywords PM_KEYWORDS (lower jd),
            keyword_scores = calculate_keyword_scores (find_keywords PM_KEYWORDS (lower jd)),
            requirements = extract_requirements jd,
            company_info = info,
            analysis_summary =
              generate_analysis_summary (find_keywords PM_KEYWORDS (lower jd))
                (extract_requirements jd)\<rparr>"
  using industries_present
  by (auto simp: analyze_def extract_company_info_def Let_def)

lemmas eval_keywords =
  lower_def lower_char_def str_count_def find_keywords_def find_in_category_def
  calculate_keyword_scores_def score_category_def dict_get_def category_weights_def

text \<open>
  C1. For every keyword table, job text and phrase: the score map of the analysis
  holds the phrase exactly when it occurs in the lowercased text and is listed in
  some category, and then its value is its non-overlapping occurrence count in the
  lowercased text times the weight of the last category that lists it (the last
  write wins, nothing is summed); the keys are distinct and no value is negative.
  \<open>analyze\<close> returns this map for the table \<open>PM_KEYWORDS\<close>.
\<close>

theorem keyword_scores_value:
  "map_of (calculate_keyword_scores (find_keywords table (lower jd))) kw =
     (if str_contains kw (lower jd) \<and> (\<exists>(c, kws) \<in> set table. kw \<in> set kws)
      then Some (real (str_count kw (lower jd)) *
                 dict_get category_weights
                   (fst (last (filter (\<lambda>(c, kws). kw \<in> set kws) table))) 0.5)
      else None)
   \<and> distinct (map fst (calculate_keyword_scores (find_keywords table (lower jd))))
   \<and> (\<forall>(k, v) \<in> set (calculate_keyword_scores (find_keywords table (lower jd))). 0 \<le> v)
   \<and> (\<exists>a. analyze (Some jd) = Inr a \<and>
          keyword_scores a = calculate_keyword_scores (find_keywords PM_KEYWORDS (lower jd)))"
proof -
  have "\<exists>a. analyze (Some jd) = Inr a \<and>
          keyword_scores a = calculate_keyword_scores (find_keywords PM_KEYWORDS (lower jd))"
    using analyze_Some[of jd] by auto
  then show ?thesis
    using map_of_keyword_scores[of table "lower jd" kw] keyword_scores_dict by blast
qed

theorem keyword_scores_value_witness:
  "str_contains ''ab'' (lower ''AB-abab'')
   \<and> (\<exists>(c, kws) \<in> set [(''core_skills'', [''ab'']), (''industries'', [''zz'', ''ab''])].
         ''ab'' \<in> set kws)
   \<and> calculate_keyword_scores
        (find_keywords [(''core_skills'', [''ab'']), (''industries'', [''zz'', ''ab''])]
           (lower ''AB-abab'')) = [(''ab'', 21 / 10)]
   \<and> map_of (calculate_keyword_scores
        (find_keywords [(''core_skills'', [''ab'']), (''industries'', [''zz'', ''ab''])]
           (lower ''AB-abab''))) ''ab'' = Some (3 * 0.7)"
  using keyword_scores_value
          [of "[(''core_skills'', [''ab'']), (''industries'', [''zz'', ''ab''])]"
              "''AB-abab''" "''ab''"]
  by (simp add: eval_keywords)

section \<open>Ranking experiences and skills\<close>

lemma experience_score_update [simp]:
  "experience_score ks (ex\<lparr>relevance_score := r\<rparr>) = experience_score ks ex"
  by (simp add: experience_score_def experience_text_def has_pm_title_def)

lemma filter_scored:
  "filter (\<lambda>e. relevance_score e = k)
     (map (\<lambda>ex. ex\<lparr>relevance_score := experience_score ks ex\<rparr>) exps)
   = map (\<lambda>e. e\<lparr>relevance_score := k\<rparr>) (filter (\<lambda>e. experience_score ks e = k) exps)"
  by (induction exps) auto

lemma ranked_scores:
  "map relevance_score (fst (score_experiences ks exps))
     = map (experience_score ks) (fst (score_experiences ks exps))"
proof -
  have "\<forall>e \<in> set (fst (score_experiences ks exps)). relevance_score e = experience_score ks e"
    by (auto simp: score_experiences_def Let_def sorted_reverse_def)
  then show ?thesis by (simp cong: map_cong)
qed

lemmas eval_ranking =
  lower_def lower_char_def score_experiences_def experience_score_def experience_text_def
  has_pm_title_def pm_titles_def keyword_sum_def sorted_reverse_def sample_experience_def

text \<open>
  C2. Experience ranking sorts by the computed relevance score, descending and
  stably: the scores of the ranked list are the computed scores and never increase
  along it, and for every score the experiences that computed to it stand in the
  ranked list in the order they have in the input.
\<close>

theorem ranking_stable_descending:
  "sorted (rev (map relevance_score (fst (score_experiences ks exps))))
   \<and> map relevance_score (fst (score_experiences ks exps))
       = map (experience_score ks) (fst (score_experiences ks exps))
   \<and> (\<forall>k. filter (\<lambda>e. relevance_score e = k) (fst (score_experiences ks exps))
           = map (\<lambda>e. e\<lparr>relevance_score := k\<rparr>)
               (filter (\<lambda>e. experience_score ks e = k) exps))"
  using ranked_scores[of ks exps]
  by (simp add: score_experiences_def Let_def sorted_reverse_descending
        sorted_reverse_stable filter_scored)

theorem ranking_stable_descending_witness:
  "fst (score_experiences [(''sql'', 1)]
          [sample_experience ''Dev'' [''SQL''], sample_experience ''Ops'' [],
           sample_experience ''QA'' [''sql''], sample_experience ''PM'' []])
     = [(sample_experience ''PM'' [])\<lparr>relevance_score := 5\<rparr>,
        (sample_experience ''Dev'' [''SQL''])\<lparr>relevance_score := 1\<rparr>,
        (sample_experience ''QA'' [''sql''])\<lparr>relevance_score := 1\<rparr>,
        sample_experience ''Ops'' []]
   \<and> filter (\<lambda>e. relevance_score e = 1)
        (fst (score_experiences [(''sql'', 1)]
          [sample_experience ''Dev'' [''SQL''], sample_experience ''Ops'' [],
           sample_experience ''QA'' [''sql''], sample_experience ''PM'' []]))
     = [(sample_experience ''Dev'' [''SQL''])\<lparr>relevance_score := 1\<rparr>,
        (sample_experience ''QA'' [''sql''])\<lparr>relevance_score := 1\<rparr>]"
  using ranking_stable_descending
          [of "[(''sql'', 1)]"
              "[sample_experience ''Dev'' [''SQL''], sample_experience ''Ops'' [],
                sample_experience ''QA'' [''sql''], sample_experience ''PM'' []]"]
  by (simp add: eval_ranking)

text \<open>
  C10. Before truncation the reordering steps return permutations: the ranked
  experiences are, as a multiset, the caller's experiences as the call leaves them
  (each input experience with its computed score written in), of the same length
  as the input; the prioritized skills are, as a multiset, the input skills, of the
  same length.
\<close>

theorem experiences_skills_permuted:
  "mset (fst (score_experiences ks exps)) = mset (snd (score_experiences ks exps))
   \<and> snd (score_experiences ks exps)
       = map (\<lambda>e. e\<lparr>relevance_score := experience_score ks e\<rparr>) exps
   \<and> length (fst (score_experiences ks exps)) = length exps
   \<and> mset (prioritize_skills ks user_skills) = mset user_skills
   \<and> length (prioritize_skills ks user_skills) = length user_skills"
proof -
  have "mset (map fst (sorted_reverse snd
                (map (\<lambda>skill. (skill, skill_score ks skill)) user_skills)))
          = image_mset fst (mset (map (\<lambda>skill. (skill, skill_score ks skill)) user_skills))"
    by (simp only: mset_map sorted_reverse_mset)
  then have "mset (prioritize_skills ks user_skills) = mset user_skills"
    by (simp add: prioritize_skills_def image_mset.compositionality comp_def)
  moreover have "length (prioritize_skills ks user_skills) = length user_skills"
    by (simp add: prioritize_skills_def sorted_reverse_length)
  ultimately show ?thesis
    by (simp add: score_experiences_def Let_def sorted_reverse_mset sorted_reverse_length)
qed

section \<open>Tailoring a resume\<close>

lemma find_keywords_nonempty: "find_keywords PM_KEYWORDS jd_lower \<noteq> []"
  by (simp add: find_keywords_def PM_KEYWORDS_def)

lemma notes_ok:
  "found_keywords a \<noteq> [] \<Longrightarrow> \<exists>ns. generate_optimization_notes a = Inr ns"
  by (cases "found_keywords a") (simp_all add: generate_optimization_notes_def max_by_def Let_def)

lemma tailor_resume_Some:
  "\<exists>a ns.
     analyze (Some jd) = Inr a \<and> generate_optimization_notes a = Inr ns \<and>
     tailor_resume p (Some jd) fa =
       Inr (\<lparr>personal =
               \<lparr>info_name = name p, info_email = email p, info_phone = phone p,
                info_linkedin = linkedin p, info_location = location p\<rparr>,
             resume_summary = optimize_summary (summary p) (keyword_scores a) fa,
             resume_experiences =
               take 5 (fst (score_experiences (keyword_scores a) (experiences p))),
             resume_skills = take 15 (prioritize_skills (keyword_scores a) (profile_skills p)),
             resume_education = education p,
             resume_certifications = certifications p,
             job_analysis = a,
             optimization_notes = ns\<rparr>,
            p\<lparr>experiences := snd (score_experiences (keyword_scores a) (experiences p))\<rparr>)"
proof -
  obtain a where a: "analyze (Some jd) = Inr a"
      and f: "found_keywords a = find_keywords PM_KEYWORDS (lower jd)"
    using analyze_Some[of jd] by auto
  obtain ns where n: "generate_optimization_notes a = Inr ns"
    using notes_ok[of a] find_keywords_nonempty f by auto
  show ?thesis
    by (rule exI[of _ a], rule exI[of _ ns])
       (simp add: a n tailor_resume_def Let_def split: prod.splits)
qed

lemma optimize_summary_focus:
  "optimize_summary base_summary ks fa1 = optimize_summary base_summary ks fa2"
  by (simp add: optimize_summary_def)

lemma score_experiences_reset:
  "score_experiences ks (map (\<lambda>ex. ex\<lparr>relevance_score := 0\<rparr>) exps)
     = score_experiences ks exps"
  by (simp add: score_experiences_def comp_def)

lemma tailor_resume_reset:
  "map_sum id fst (tailor_resume (reset_scores p) jd fa)
     = map_sum id fst (tailor_resume p jd fa)"
  by (simp add: tailor_resume_def reset_scores_def score_experiences_reset Let_def
           split: sum.splits prod.splits)

lemmas eval_analyze =
  analyze_def extract_company_info_def extract_requirements_def req_patterns_def
  match_plural_def match_need_def match_have_def iprefix_def generate_analysis_summary_def
  PM_KEYWORDS_def eval_keywords sorted_reverse_def str_of_nat.simps

lemmas eval_tailor =
  tailor_resume_def generate_optimization_notes_def max_by_def replace_char_def
  optimize_summary_def themes_of_def prioritize_skills_def skill_score_def dict_get_def
  eval_ranking sample_profile_def str_of_nat.simps

lemma analyze_sql:
  "analyze (Some ''SQL'') =
     Inr \<lparr>found_keywords =
            [(''core_skills'', []), (''technical_skills'', [(''sql'', 1)]),
             (''soft_skills'', []), (''industries'', [])],
          keyword_scores = [(''sql'', 4 / 5)], requirements = [],
          company_info = \<lparr>industry = [], company_size = [], stage = [], culture = []\<rparr>,
          analysis_summary =
            ''Found 1 relevant PM keywords. Top focus areas: technical_skills, core_skills, soft_skills. Identified 0 key requirements.''\<rparr>"
  by (simp add: eval_analyze)

lemma tailor_sample:
  "tailor_resume
     (sample_profile [sample_experience ''Dev'' [], sample_experience ''PM'' [''sql'']]
        [''Excel'', ''SQL''])
     (Some ''SQL'') None =
   Inr (\<lparr>personal =
          \<lparr>info_name = ''Ada'', info_email = ''ada@example.org'',
           info_phone = ''555'', info_linkedin = ''in/ada'', info_location = ''London''\<rparr>,
         resume_summary = ''Builder. Specialized in sql.'',
         resume_experiences =
           [(sample_experience ''PM'' [''sql''])\<lparr>relevance_score := 29 / 5\<rparr>,
            sample_experience ''Dev'' []],
         resume_skills = [''SQL'', ''Excel''], resume_education = [],
         resume_certifications = [],
         job_analysis =
           \<lparr>found_keywords =
              [(''core_skills'', []), (''technical_skills'', [(''sql'', 1)]),
               (''soft_skills'', []), (''industries'', [])],
            keyword_scores = [(''sql'', 4 / 5)], requirements = [],
            company_info = \<lparr>industry = [], company_size = [], stage = [], culture = []\<rparr>,
            analysis_summary =
              ''Found 1 relevant PM keywords. Top focus areas: technical_skills, core_skills, soft_skills. Identified 0 key requirements.''\<rparr>,
         optimization_notes =
           [''Optimized for 1 relevant PM keywords from job description'',
            ''Emphasized technical skills based on job requirements'',
            ''Reordered experiences by relevance score'',
            ''Prioritized skills matching job description'']\<rparr>,
        sample_profile
          [sample_experience ''Dev'' [],
           (sample_experience ''PM'' [''sql''])\<lparr>relevance_score := 29 / 5\<rparr>]
          [''Excel'', ''SQL''])"
  unfolding tailor_resume_def analyze_sql
  by (simp add: eval_tailor)

text \<open>
  C5. For every profile and job text, \<open>tailor_resume\<close> returns a resume that holds
  exactly min(5, number of profile experiences) experiences and exactly
  min(15, number of profile skills) skills.
\<close>

theorem top_k_lengths:
  "\<exists>r p'. tailor_resume p (Some jd) fa = Inr (r, p')
     \<and> length (resume_experiences r) = min 5 (length (experiences p))
     \<and> length (resume_skills r) = min 15 (length (profile_skills p))"
proof -
  from tailor_resume_Some[of jd p fa] obtain a ns where
    t: "tailor_resume p (Some jd) fa =
       Inr (\<lparr>personal =
               \<lparr>info_name = name p, info_email = email p, info_phone = phone p,
                info_linkedin = linkedin p, info_location = location p\<rparr>,
             resume_summary = optimize_summary (summary p) (keyword_scores a) fa,
             resume_experiences =
               take 5 (fst (score_experiences (keyword_scores a) (experiences p))),
             resume_skills = take 15 (prioritize_skills (keyword_scores a) (profile_skills p)),
             resume_education = education p,
             resume_certifications = certifications p,
             job_analysis = a,
             optimization_notes = ns\<rparr>,
            p\<lparr>experiences := snd (score_experiences (keyword_scores a) (experiences p))\<rparr>)"
    by blast
  show ?thesis
    unfolding t
    by (simp add: score_experiences_def Let_def sorted_reverse_length prioritize_skills_def
          min.commute)
qed

text \<open>
  C6. Tailoring is idempotent: when a call returns a resume and leaves the profile
  with its scores written in, a second call with the same job text on any profile
  that differs from it in the relevance scores at most (the scores reset to the
  default, restored, or left as the first call wrote them) returns the same resume.
\<close>

theorem tailor_idempotent:
  assumes "tailor_resume p jd fa = Inr (r, p')"
      and "reset_scores q = reset_scores p'"
  shows "\<exists>q'. tailor_resume q jd fa = Inr (r, q')"
proof -
  have "reset_scores p' = reset_scores p"
    using assms(1)
    by (auto simp: tailor_resume_def Let_def score_experiences_def reset_scores_def comp_def
             split: sum.splits prod.splits)
  then have "map_sum id fst (tailor_resume q jd fa) = map_sum id fst (tailor_resume p jd fa)"
    using tailor_resume_reset[of q jd fa] tailor_resume_reset[of p jd fa] assms(2) by simp
  then show ?thesis
    using assms(1) by (cases "tailor_resume q jd fa") auto
qed

theorem tailor_idempotent_witness:
  "\<exists>q'. tailor_resume
          (sample_profile
             [sample_experience ''Dev'' [],
              (sample_experience ''PM'' [''sql''])\<lparr>relevance_score := 29 / 5\<rparr>]
             [''Excel'', ''SQL''])
          (Some ''SQL'') None =
        Inr (\<lparr>personal =
               \<lparr>info_name = ''Ada'', info_email = ''ada@example.org'',
                info_phone = ''555'', info_linkedin = ''in/ada'',
                info_location = ''London''\<rparr>,
              resume_summary = ''Builder. Specialized in sql.'',
              resume_experiences =
                [(sample_experience ''PM'' [''sql''])\<lparr>relevance_score := 29 / 5\<rparr>,
                 sample_experience ''Dev'' []],
              resume_skills = [''SQL'', ''Excel''], resume_education = [],
              resume_certifications = [],
              job_analysis =
                \<lparr>found_keywords =
                   [(''core_skills'', []), (''technical_skills'', [(''sql'', 1)]),
                    (''soft_skills'', []), (''industries'', [])],
                 keyword_scores = [(''sql'', 4 / 5)], requirements = [],
                 company_info =
                   \<lparr>industry = [], company_size = [], stage = [], culture = []\<rparr>,
                 analysis_summary =
                   ''Found 1 relevant PM keywords. Top focus areas: technical_skills, core_skills, soft_skills. Identified 0 key requirements.''\<rparr>,
              optimization_notes =
                [''Optimized for 1 relevant PM keywords from job description'',
                 ''Emphasized technical skills based on job requirements'',
                 ''Reordered experiences by relevance score'',
                 ''Prioritized skills matching job description'']\<rparr>, q')"
  by (rule tailor_idempotent[OF tailor_sample refl])

text \<open>
  C8. The focus areas have no effect: for any two values of the parameter (absent
  included) the optimized summary is the same, and so is the whole result of
  \<open>tailor_resume\<close>.
\<close>

theorem focus_areas_ignored:
  "optimize_summary base_summary ks fa1 = optimize_summary base_summary ks fa2
   \<and> tailor_resume p jd fa1 = tailor_resume p jd fa2"
  unfolding tailor_resume_def
  by (simp only: optimize_summary_focus[of _ _ fa1 fa2])

text \<open>
  C9. Tailoring leaves the caller's profile as it was except for the relevance
  scores: the profile after the call is the profile before it with the computed
  score written into each experience. The identity fields, the summary, education,
  skills, certifications and languages are unchanged, and the experiences are the
  same in number, order and every other field.
\<close>

theorem profile_frame:
  "tailor_resume p jd fa = Inr (r, p') \<Longrightarrow>
     p' = p\<lparr>experiences :=
              map (\<lambda>e. e\<lparr>relevance_score :=
                           experience_score (keyword_scores (job_analysis r)) e\<rparr>)
                (experiences p)\<rparr>
     \<and> name p' = name p \<and> email p' = email p \<and> phone p' = phone p
     \<and> linkedin p' = linkedin p \<and> location p' = location p \<and> summary p' = summary p
     \<and> education p' = education p \<and> profile_skills p' = profile_skills p
     \<and> certifications p' = certifications p \<and> languages p' = languages p
     \<and> length (experiences p') = length (experiences p)
     \<and> (\<forall>i < length (experiences p).
           title (experiences p' ! i) = title (experiences p ! i)
         \<and> company (experiences p' ! i) = company (experiences p ! i)
         \<and> duration (experiences p' ! i) = duration (experiences p ! i)
         \<and> achievements (experiences p' ! i) = achievements (experiences p ! i)
         \<and> skills (experiences p' ! i) = skills (experiences p ! i)
         \<and> relevance_score (experiences p' ! i)
             = experience_score (keyword_scores (job_analysis r)) (experiences p ! i))"
proof -
  assume t: "tailor_resume p jd fa = Inr (r, p')"
  have 1: "p' = p\<lparr>experiences :=
                 map (\<lambda>e. e\<lparr>relevance_score :=
                              experience_score (keyword_scores (job_analysis r)) e\<rparr>)
                   (experiences p)\<rparr>"
    using t
    by (auto simp: tailor_resume_def Let_def score_experiences_def
             split: sum.splits prod.splits)
  show ?thesis
    unfolding 1 by simp
qed

theorem profile_frame_witness:
  "sample_profile
     [sample_experience ''Dev'' [],
      (sample_experience ''PM'' [''sql''])\<lparr>relevance_score := 29 / 5\<rparr>]
     [''Excel'', ''SQL'']
   = (sample_profile [sample_experience ''Dev'' [], sample_experience ''PM'' [''sql'']]
        [''Excel'', ''SQL''])
       \<lparr>experiences :=
          map (\<lambda>e. e\<lparr>relevance_score := experience_score [(''sql'', 4 / 5)] e\<rparr>)
            [sample_experience ''Dev'' [], sample_experience ''PM'' [''sql'']]\<rparr>
   \<and> name (sample_profile
        [sample_experience ''Dev'' [],
         (sample_experience ''PM'' [''sql''])\<lparr>relevance_score := 29 / 5\<rparr>]
        [''Excel'', ''SQL'']) = ''Ada''"
  using profile_frame[OF tailor_sample]
  by (simp add: sample_profile_def)

section \<open>Stable sorting, split by a threshold\<close>

lemma sorted_reverse_unique:
  assumes "mset ys = mset xs"
      and "\<And>k. filter (\<lambda>x. key x = k) ys = filter (\<lambda>x. key x = k) xs"
      and "sorted (rev (map key ys))"
  shows "sorted_reverse key xs = ys"
proof -
  have "sort_key key (rev xs) = rev ys"
  proof (rule properties_for_sort_key)
    show "mset (rev ys) = mset (rev xs)" using assms(1) by simp
    show "filter (\<lambda>x. key k = key x) (rev ys) = filter (\<lambda>x. key k = key x) (rev xs)" for k
      using assms(2)[of "key k"] by (simp add: rev_filter[symmetric] eq_commute)
    show "sorted (map key (rev ys))" using assms(3) by (simp add: rev_map)
  qed
  then show ?thesis by (simp add: sorted_reverse_def)
qed

lemma sorted_reverse_set: "set (sorted_reverse key xs) = set xs"
  by (simp add: sorted_reverse_def)

lemma filter_none: "(\<And>x. x \<in> set xs \<Longrightarrow> \<not> P x) \<Longrightarrow> filter P xs = []"
  by (induction xs) auto

lemma sorted_reverse_split:
  assumes hi: "\<And>x. x \<in> set xs \<Longrightarrow> P x \<Longrightarrow> b < key x"
      and lo: "\<And>x. x \<in> set xs \<Longrightarrow> \<not> P x \<Longrightarrow> key x = b"
  shows "sorted_reverse key xs = sorted_reverse key (filter P xs) @ filter (\<lambda>x. \<not> P x) xs"
proof (rule sorted_reverse_unique)
  show "mset (sorted_reverse key (filter P xs) @ filter (\<lambda>x. \<not> P x) xs) = mset xs"
    by (simp add: sorted_reverse_mset)
next
  fix k
  show "filter (\<lambda>x. key x = k) (sorted_reverse key (filter P xs) @ filter (\<lambda>x. \<not> P x) xs)
          = filter (\<lambda>x. key x = k) xs"
  proof (cases "k = b")
    case True
    have "filter (\<lambda>x. key x = k) (filter P xs) = []"
      using hi True by (intro filter_none) auto
    moreover have "filter (\<lambda>x. key x = k) (filter (\<lambda>x. \<not> P x) xs) = filter (\<lambda>x. key x = k) xs"
      using hi True by (auto intro!: filter_cong simp: filter_filter) 
    ultimately show ?thesis by (simp add: sorted_reverse_stable)
  next
    case False
    have "filter (\<lambda>x. key x = k) (filter (\<lambda>x. \<not> P x) xs) = []"
      using lo False by (intro filter_none) auto
    moreover have "filter (\<lambda>x. key x = k) (filter P xs) = filter (\<lambda>x. key x = k) xs"
      using lo False by (auto intro!: filter_cong simp: filter_filter)
    ultimately show ?thesis by (simp add: sorted_reverse_stable)
  qed
next
  have "sorted (rev (map key (filter (\<lambda>x. \<not> P x) xs)))"
    using lo by (induction xs) (auto simp: sorted_append)
  moreover have "\<forall>x \<in> set (filter (\<lambda>x. \<not> P x) xs). \<forall>y \<in> set (sorted_reverse key (filter P xs)). key x \<le> key y"
    using hi lo by (auto simp: sorted_reverse_set less_imp_le)
  ultimately show "sorted (rev (map key (sorted_reverse key (filter P xs) @ filter (\<lambda>x. \<not> P x) xs)))"
    using sorted_reverse_descending[of key "filter P xs"]
    by (auto simp: sorted_append)
qed

lemma sorted_reverse_const:
  assumes "\<And>x. x \<in> set xs \<Longrightarrow> key x = a"
  shows "sorted_reverse key xs = xs"
proof -
  have "filter (\<lambda>x. key x = a) (sorted_reverse key xs) = sorted_reverse key xs"
    using assms by (intro filter_True) (simp add: sorted_reverse_set)
  moreover have "filter (\<lambda>x. key x = a) xs = xs"
    using assms by (intro filter_True) simp
  ultimately show ?thesis using sorted_reverse_stable[of key a xs] by simp
qed

section \<open>Skill prioritization\<close>

lemma skill_score_cases:
  "skill_score ks skill =
     dict_get ks (lower skill) 0 + (if lower skill \<in> fst ` set ks then 2 else 0)"
  by (simp add: skill_score_def Let_def)

lemma dict_get_nonneg:
  "\<forall>(k, v) \<in> set ks. 0 \<le> v \<Longrightarrow> (0::real) \<le> dict_get ks k 0"
  by (auto simp: dict_get_def split: option.splits dest: map_of_SomeD)

lemma dict_get_absent: "k \<notin> fst ` set ks \<Longrightarrow> dict_get ks k d = d"
  by (simp add: dict_get_def map_of_eq_None_iff[THEN iffD2])

lemma prioritize_descending:
  "sorted (rev (map (skill_score ks) (prioritize_skills ks user_skills)))"
proof -
  let ?xs = "map (\<lambda>skill. (skill, skill_score ks skill)) user_skills"
  let ?ys = "sorted_reverse snd ?xs"
  have el: "\<forall>x \<in> set ?ys. snd x = skill_score ks (fst x)"
    by (auto simp: sorted_reverse_set)
  have m: "map (skill_score ks \<circ> fst) ?ys = map snd ?ys"
    by (rule map_cong[OF refl]) (use el in auto)
  show ?thesis
    by (simp only: prioritize_skills_def map_map m sorted_reverse_descending)
qed

lemma skill_score_fun:
  "skill_score ks
     = (\<lambda>s. dict_get ks (lower s) 0 + (if lower s \<in> fst ` set ks then 2 else 0))"
  by (rule ext) (rule skill_score_cases)

lemma prioritize_stable:
  "filter (\<lambda>s. skill_score ks s = k) (prioritize_skills ks user_skills)
     = filter (\<lambda>s. skill_score ks s = k) user_skills"
proof -
  let ?xs = "map (\<lambda>skill. (skill, skill_score ks skill)) user_skills"
  let ?ys = "sorted_reverse snd ?xs"
  have el: "\<forall>x \<in> set ?ys. snd x = skill_score ks (fst x)"
    by (auto simp: sorted_reverse_set)
  have "filter (\<lambda>s. skill_score ks s = k) (map fst ?ys)
          = map fst (filter (\<lambda>x. skill_score ks (fst x) = k) ?ys)"
    by (simp add: filter_map comp_def)
  also have "filter (\<lambda>x. skill_score ks (fst x) = k) ?ys = filter (\<lambda>x. snd x = k) ?ys"
    using el by (intro filter_cong) auto
  also have "\<dots> = filter (\<lambda>x. snd x = k) ?xs"
    by (rule sorted_reverse_stable)
  also have "map fst \<dots> = filter (\<lambda>s. skill_score ks s = k) user_skills"
    by (simp add: filter_map comp_def)
  finally show ?thesis by (simp add: prioritize_skills_def)
qed

text \<open>
  C7. A skill scores the lookup of its lowercase form in the score map (0 when
  absent) plus 2 when the lowercase form is a key of the map, and prioritization is
  the stable descending sort by that score: along the prioritized list the value
  lookup + bonus never increases, and for every value the skills that score it
  keep their input order. When no value of the map is negative, as in every map
  \<open>analyze\<close> builds, the skills whose lowercase form is a key (such as "SQL" for the
  keyword "sql") are all ranked before the skills whose lowercase form is not a key
  (such as one that only contains the keyword), and these keep their input order.
\<close>

theorem skill_exact_match_bonus:
  "skill_score ks skill =
     dict_get ks (lower skill) 0 + (if lower skill \<in> fst ` set ks then 2 else 0)
   \<and> sorted (rev (map (\<lambda>s. dict_get ks (lower s) 0
                                + (if lower s \<in> fst ` set ks then 2 else 0))
                    (prioritize_skills ks user_skills)))
   \<and> (\<forall>k. filter (\<lambda>s. dict_get ks (lower s) 0
                          + (if lower s \<in> fst ` set ks then 2 else 0) = k)
              (prioritize_skills ks user_skills)
           = filter (\<lambda>s. dict_get ks (lower s) 0
                          + (if lower s \<in> fst ` set ks then 2 else 0) = k)
               user_skills)
   \<and> ((\<forall>(k, v) \<in> set ks. 0 \<le> v) \<longrightarrow>
        prioritize_skills ks user_skills =
          prioritize_skills ks (filter (\<lambda>s. lower s \<in> fst ` set ks) user_skills)
          @ filter (\<lambda>s. lower s \<notin> fst ` set ks) user_skills)"
proof (intro conjI impI allI)
  show "skill_score ks skill =
     dict_get ks (lower skill) 0 + (if lower skill \<in> fst ` set ks then 2 else 0)"
    by (rule skill_score_cases)
next
  show "sorted (rev (map (\<lambda>s. dict_get ks (lower s) 0
                                + (if lower s \<in> fst ` set ks then 2 else 0))
                    (prioritize_skills ks user_skills)))"
    using prioritize_descending[of ks user_skills] unfolding skill_score_fun .
next
  fix k
  show "filter (\<lambda>s. dict_get ks (lower s) 0
                          + (if lower s \<in> fst ` set ks then 2 else 0) = k)
              (prioritize_skills ks user_skills)
           = filter (\<lambda>s. dict_get ks (lower s) 0
                          + (if lower s \<in> fst ` set ks then 2 else 0) = k)
               user_skills"
    using prioritize_stable[of ks k user_skills] unfolding skill_score_fun .
next
  assume nn: "\<forall>(k, v) \<in> set ks. 0 \<le> v"
  let ?P = "\<lambda>x::string \<times> real. lower (fst x) \<in> fst ` set ks"
  let ?xs = "map (\<lambda>skill. (skill, skill_score ks skill)) user_skills"
  have split: "sorted_reverse snd ?xs
                 = sorted_reverse snd (filter ?P ?xs) @ filter (\<lambda>x. \<not> ?P x) ?xs"
  proof (rule sorted_reverse_split[where b = 0])
    fix x assume "x \<in> set ?xs" "?P x"
    then show "0 < snd x"
      using dict_get_nonneg[OF nn, of "lower (fst x)"]
      by (auto simp: skill_score_cases rev_image_eqI)
  next
    fix x assume "x \<in> set ?xs" "\<not> ?P x"
    then show "snd x = 0"
      by (auto simp: skill_score_cases dict_get_absent)
  qed
  have f1: "filter ?P ?xs
             = map (\<lambda>skill. (skill, skill_score ks skill))
                 (filter (\<lambda>s. lower s \<in> fst ` set ks) user_skills)"
    by (simp add: filter_map comp_def)
  have f2: "map fst (filter (\<lambda>x. \<not> ?P x) ?xs)
             = filter (\<lambda>s. lower s \<notin> fst ` set ks) user_skills"
    by (simp add: filter_map comp_def)
  show "prioritize_skills ks user_skills =
          prioritize_skills ks (filter (\<lambda>s. lower s \<in> fst ` set ks) user_skills)
          @ filter (\<lambda>s. lower s \<notin> fst ` set ks) user_skills"
    unfolding prioritize_skills_def split map_append f2 f1 ..
qed

theorem skill_exact_match_bonus_witness:
  "skill_score [(''sql'', 1), (''agile'', 3)] ''SQL'' = 1 + 2
   \<and> skill_score [(''sql'', 1), (''agile'', 3)] ''Agile'' = 3 + 2
   \<and> skill_score [(''sql'', 1), (''agile'', 3)] ''MySQL tools'' = 0
   \<and> prioritize_skills [(''sql'', 1), (''agile'', 3)]
        [''MySQL tools'', ''SQL'', ''Excel'', ''Agile'']
       = [''Agile'', ''SQL'', ''MySQL tools'', ''Excel'']"
proof -
  let ?ks = "[(''sql'', 1 :: real), (''agile'', 3)]"
  have e: "lower ''SQL'' = ''sql''" "lower ''MySQL tools'' = ''mysql tools''"
          "lower ''Excel'' = ''excel''" "lower ''Agile'' = ''agile''"
    by (simp_all add: lower_def lower_char_def)
  have s: "prioritize_skills ?ks [''SQL'', ''Agile''] = [''Agile'', ''SQL'']"
    by (simp add: prioritize_skills_def skill_score_def dict_get_def sorted_reverse_def e)
  have "skill_score ?ks ''SQL'' = 1 + 2"
    using skill_exact_match_bonus[of ?ks "''SQL''" "[]"] by (simp add: e dict_get_def)
  moreover have "skill_score ?ks ''Agile'' = 3 + 2"
    using skill_exact_match_bonus[of ?ks "''Agile''" "[]"] by (simp add: e dict_get_def)
  moreover have "skill_score ?ks ''MySQL tools'' = 0"
    using skill_exact_match_bonus[of ?ks "''MySQL tools''" "[]"] by (simp add: e dict_get_def)
  moreover have "prioritize_skills ?ks [''MySQL tools'', ''SQL'', ''Excel'', ''Agile'']
       = [''Agile'', ''SQL'', ''MySQL tools'', ''Excel'']"
    using skill_exact_match_bonus
            [of ?ks "[]" "[''MySQL tools'', ''SQL'', ''Excel'', ''Agile'']"]
    by (simp add: e s)
  ultimately show ?thesis by blast
qed

section \<open>Empty keyword table, empty and missing job text\<close>

lemma empty_table_scores:
  "\<forall>(c, kws) \<in> set table. kws = [] \<Longrightarrow>
     calculate_keyword_scores (find_keywords table jd_lower) = []"
proof (induction table rule: rev_induct)
  case Nil
  show ?case by (simp add: calculate_keyword_scores_def find_keywords_def)
next
  case (snoc x table)
  obtain c kws where x: "x = (c, kws)" by (cases x)
  have "find_keywords (table @ [x]) jd_lower
          = find_keywords table jd_lower @ [(c, find_in_category jd_lower kws)]"
    by (simp add: find_keywords_def x)
  then show ?case
    using snoc by (simp add: x calculate_snoc score_category_def find_in_category_def)
qed

lemma experience_score_empty:
  "experience_score [] ex = (if has_pm_title ex then 5 else 0)"
  by (simp add: experience_score_def keyword_sum_def)

lemma extract_company_info_in_shipped:
  "extract_company_info_in PM_KEYWORDS jd = extract_company_info jd"
  unfolding extract_company_info_in_def extract_company_info_def ..

lemma analyze_in_shipped: "analyze_in PM_KEYWORDS job_description = analyze job_description"
  unfolding analyze_in_def analyze_def extract_company_info_in_shipped ..

lemma tailor_resume_in_shipped:
  "tailor_resume_in PM_KEYWORDS profile job_description focus_areas
     = tailor_resume profile job_description focus_areas"
  unfolding tailor_resume_in_def tailor_resume_def analyze_in_shipped ..

lemma analyze_in_no_industries:
  "map_of table ''industries'' = None \<Longrightarrow> analyze_in table (Some jd) = Inl KeyError"
  by (simp add: analyze_in_def extract_company_info_in_def)

lemma tailor_in_no_industries:
  "map_of table ''industries'' = None \<Longrightarrow> tailor_resume_in table p (Some jd) fa = Inl KeyError"
  by (simp add: tailor_resume_in_def analyze_in_no_industries)

lemma analyze_in_Some:
  assumes "map_of table ''industries'' \<noteq> None"
  shows "\<exists>info. analyze_in table (Some jd) =
       Inr \<lparr>found_keywords = find_keywords table (lower jd),
            keyword_scores = calculate_keyword_scores (find_keywords table (lower jd)),
            requirements = extract_requirements jd,
            company_info = info,
            analysis_summary =
              generate_analysis_summary (find_keywords table (lower jd))
                (extract_requirements jd)\<rparr>"
  using assms by (auto simp: analyze_in_def extract_company_info_in_def Let_def)

lemma tailor_resume_in_Some:
  assumes "map_of table ''industries'' \<noteq> None"
  shows "\<exists>a ns.
     analyze_in table (Some jd) = Inr a
     \<and> keyword_scores a = calculate_keyword_scores (find_keywords table (lower jd))
     \<and> tailor_resume_in table p (Some jd) fa =
       Inr (\<lparr>personal =
               \<lparr>info_name = name p, info_email = email p, info_phone = phone p,
                info_linkedin = linkedin p, info_location = location p\<rparr>,
             resume_summary = optimize_summary (summary p) (keyword_scores a) fa,
             resume_experiences =
               take 5 (fst (score_experiences (keyword_scores a) (experiences p))),
             resume_skills = take 15 (prioritize_skills (keyword_scores a) (profile_skills p)),
             resume_education = education p,
             resume_certifications = certifications p,
             job_analysis = a,
             optimization_notes = ns\<rparr>,
            p\<lparr>experiences := snd (score_experiences (keyword_scores a) (experiences p))\<rparr>)"
proof -
  obtain a where a: "analyze_in table (Some jd) = Inr a"
      and f: "found_keywords a = find_keywords table (lower jd)"
      and k: "keyword_scores a = calculate_keyword_scores (find_keywords table (lower jd))"
    using analyze_in_Some[OF assms, of jd] by auto
  have "table \<noteq> []" using assms by auto
  then have "found_keywords a \<noteq> []" by (simp add: f find_keywords_def)
  then obtain ns where n: "generate_optimization_notes a = Inr ns"
    using notes_ok[of a] by auto
  show ?thesis
    by (rule exI[of _ a], rule exI[of _ ns])
       (simp add: a n k tailor_resume_in_def Let_def split: prod.splits)
qed

lemma has_pm_title_update [simp]:
  "has_pm_title (e\<lparr>relevance_score := r\<rparr>) = has_pm_title e"
  by (simp add: has_pm_title_def)

lemma scored_empty:
  "snd (score_experiences [] exps)
     = map (\<lambda>e. e\<lparr>relevance_score := (if has_pm_title e then 5 else 0)\<rparr>) exps"
  by (simp add: score_experiences_def Let_def experience_score_empty)

lemma ranked_empty:
  "fst (score_experiences [] exps)
     = map (\<lambda>e. e\<lparr>relevance_score := 5\<rparr>) (filter has_pm_title exps)
       @ map (\<lambda>e. e\<lparr>relevance_score := 0\<rparr>) (filter (\<lambda>e. \<not> has_pm_title e) exps)"
proof -
  let ?xs = "map (\<lambda>ex. ex\<lparr>relevance_score := experience_score [] ex\<rparr>) exps"
  have split: "sorted_reverse relevance_score ?xs
        = sorted_reverse relevance_score (filter has_pm_title ?xs)
          @ filter (\<lambda>x. \<not> has_pm_title x) ?xs"
    by (rule sorted_reverse_split[where b = 0]) (auto simp: experience_score_empty)
  have hi: "filter has_pm_title ?xs
              = map (\<lambda>e. e\<lparr>relevance_score := 5\<rparr>) (filter has_pm_title exps)"
    by (induction exps) (auto simp: experience_score_empty)
  have lo: "filter (\<lambda>x. \<not> has_pm_title x) ?xs
              = map (\<lambda>e. e\<lparr>relevance_score := 0\<rparr>) (filter (\<lambda>e. \<not> has_pm_title e) exps)"
    by (induction exps) (auto simp: experience_score_empty)
  have const: "sorted_reverse relevance_score
                 (map (\<lambda>e. e\<lparr>relevance_score := 5\<rparr>) (filter has_pm_title exps))
               = map (\<lambda>e. e\<lparr>relevance_score := 5\<rparr>) (filter has_pm_title exps)"
    by (rule sorted_reverse_const[where a = 5]) auto
  show ?thesis
    by (simp add: score_experiences_def Let_def split hi lo const)
qed

lemma ranked_empty_plain:
  "\<forall>e \<in> set exps. \<not> has_pm_title e \<Longrightarrow>
     fst (score_experiences [] exps) = map (\<lambda>e. e\<lparr>relevance_score := 0\<rparr>) exps"
  unfolding ranked_empty by (auto simp: filter_none cong: filter_cong)

lemma default_weight_scores:
  "map_of category_weights category = None \<Longrightarrow>
     calculate_keyword_scores (find_keywords [(category, [kw]), (''industries'', [])] jd_lower)
       = (if str_contains kw jd_lower then [(kw, real (str_count kw jd_lower) * 0.5)] else [])"
  by (simp add: calculate_keyword_scores_def find_keywords_def find_in_category_def
        score_category_def dict_get_def)

lemmas eval_analyze_in =
  analyze_in_def extract_company_info_in_def extract_requirements_def req_patterns_def
  match_plural_def match_need_def match_have_def iprefix_def generate_analysis_summary_def
  empty_categories_def eval_keywords sorted_reverse_def str_of_nat.simps

lemmas eval_tailor_in =
  tailor_resume_in_def generate_optimization_notes_def max_by_def replace_char_def
  optimize_summary_def themes_of_def prioritize_skills_def skill_score_def dict_get_def
  eval_ranking sample_profile_def str_of_nat.simps

lemma analyze_in_empty_sql:
  "analyze_in empty_categories (Some ''sql'') =
     Inr \<lparr>found_keywords =
            [(''core_skills'', []), (''technical_skills'', []),
             (''soft_skills'', []), (''industries'', [])],
          keyword_scores = [], requirements = [],
          company_info = \<lparr>industry = [], company_size = [], stage = [], culture = []\<rparr>,
          analysis_summary =
            ''Found 0 relevant PM keywords. Top focus areas: core_skills, technical_skills, soft_skills. Identified 0 key requirements.''\<rparr>"
  by (simp add: eval_analyze_in)

text \<open>
  C3, as amended. Take a keyword table none of whose categories lists a phrase.
  When it has the category "industries", \<open>analyze\<close> and \<open>tailor_resume\<close> return, the
  keyword score map is empty, and every experience scores exactly the PM-title
  bonus: 5 when its lowercased title contains "product manager", "product owner"
  or "pm", else 0; the ranking puts the experiences with such a title first and
  keeps the input order within both groups. So for a profile none of whose titles
  contains one of them all scores are zero and the ranking returns the input
  order. When the table has no category "industries" (a table with no categories
  at all, for one), \<open>analyze\<close> and \<open>tailor_resume\<close> raise \<open>KeyError\<close>. A category that
  has no weight does not score zero: its phrases are weighted with the default 0.5.
\<close>

theorem empty_table_ranking:
  "\<forall>(c, kws) \<in> set table. kws = [] \<Longrightarrow>
     (map_of table ''industries'' = None \<longrightarrow>
        analyze_in table (Some jd) = Inl KeyError
        \<and> tailor_resume_in table p (Some jd) fa = Inl KeyError)
   \<and> (map_of table ''industries'' \<noteq> None \<longrightarrow>
        (\<exists>a r p'. analyze_in table (Some jd) = Inr a \<and> keyword_scores a = []
           \<and> tailor_resume_in table p (Some jd) fa = Inr (r, p')
           \<and> experiences p'
               = map (\<lambda>e. e\<lparr>relevance_score := (if has_pm_title e then 5 else 0)\<rparr>)
                   (experiences p)
           \<and> resume_experiences r
               = take 5 (map (\<lambda>e. e\<lparr>relevance_score := 5\<rparr>)
                           (filter has_pm_title (experiences p))
                         @ map (\<lambda>e. e\<lparr>relevance_score := 0\<rparr>)
                             (filter (\<lambda>e. \<not> has_pm_title e) (experiences p)))
           \<and> ((\<forall>e \<in> set (experiences p). \<not> has_pm_title e) \<longrightarrow>
                 resume_experiences r
                   = take 5 (map (\<lambda>e. e\<lparr>relevance_score := 0\<rparr>) (experiences p)))))
   \<and> fst (score_experiences [] exps)
       = map (\<lambda>e. e\<lparr>relevance_score := 5\<rparr>) (filter has_pm_title exps)
         @ map (\<lambda>e. e\<lparr>relevance_score := 0\<rparr>) (filter (\<lambda>e. \<not> has_pm_title e) exps)
   \<and> ((\<forall>e \<in> set exps. \<not> has_pm_title e) \<longrightarrow>
         fst (score_experiences [] exps) = map (\<lambda>e. e\<lparr>relevance_score := 0\<rparr>) exps)
   \<and> (map_of category_weights category = None \<longrightarrow>
        (\<exists>a. analyze_in [(category, [kw]), (''industries'', [])] (Some jd) = Inr a
           \<and> keyword_scores a
               = (if str_contains kw (lower jd)
                  then [(kw, real (str_count kw (lower jd)) * 0.5)] else [])))"
proof -
  assume tbl: "\<forall>(c, kws) \<in> set table. kws = []"
  have none: "map_of table ''industries'' = None \<longrightarrow>
        analyze_in table (Some jd) = Inl KeyError
        \<and> tailor_resume_in table p (Some jd) fa = Inl KeyError"
    by (simp add: analyze_in_no_industries tailor_in_no_industries)
  have some: "map_of table ''industries'' \<noteq> None \<longrightarrow>
        (\<exists>a r p'. analyze_in table (Some jd) = Inr a \<and> keyword_scores a = []
           \<and> tailor_resume_in table p (Some jd) fa = Inr (r, p')
           \<and> experiences p'
               = map (\<lambda>e. e\<lparr>relevance_score := (if has_pm_title e then 5 else 0)\<rparr>)
                   (experiences p)
           \<and> resume_experiences r
               = take 5 (map (\<lambda>e. e\<lparr>relevance_score := 5\<rparr>)
                           (filter has_pm_title (experiences p))
                         @ map (\<lambda>e. e\<lparr>relevance_score := 0\<rparr>)
                             (filter (\<lambda>e. \<not> has_pm_title e) (experiences p)))
           \<and> ((\<forall>e \<in> set (experiences p). \<not> has_pm_title e) \<longrightarrow>
                 resume_experiences r
                   = take 5 (map (\<lambda>e. e\<lparr>relevance_score := 0\<rparr>) (experiences p))))"
  proof
    assume ind: "map_of table ''industries'' \<noteq> None"
    from tailor_resume_in_Some[OF ind, of jd p fa] obtain a ns where
      a: "analyze_in table (Some jd) = Inr a"
      and k: "keyword_scores a = calculate_keyword_scores (find_keywords table (lower jd))"
      and t: "tailor_resume_in table p (Some jd) fa =
       Inr (\<lparr>personal =
               \<lparr>info_name = name p, info_email = email p, info_phone = phone p,
                info_linkedin = linkedin p, info_location = location p\<rparr>,
             resume_summary = optimize_summary (summary p) (keyword_scores a) fa,
             resume_experiences =
               take 5 (fst (score_experiences (keyword_scores a) (experiences p))),
             resume_skills = take 15 (prioritize_skills (keyword_scores a) (profile_skills p)),
             resume_education = education p,
             resume_certifications = certifications p,
             job_analysis = a,
             optimization_notes = ns\<rparr>,
            p\<lparr>experiences := snd (score_experiences (keyword_scores a) (experiences p))\<rparr>)"
      by blast
    have k0: "keyword_scores a = []" using k empty_table_scores[OF tbl] by simp
    show "\<exists>a r p'. analyze_in table (Some jd) = Inr a \<and> keyword_scores a = []
           \<and> tailor_resume_in table p (Some jd) fa = Inr (r, p')
           \<and> experiences p'
               = map (\<lambda>e. e\<lparr>relevance_score := (if has_pm_title e then 5 else 0)\<rparr>)
                   (experiences p)
           \<and> resume_experiences r
               = take 5 (map (\<lambda>e. e\<lparr>relevance_score := 5\<rparr>)
                           (filter has_pm_title (experiences p))
                         @ map (\<lambda>e. e\<lparr>relevance_score := 0\<rparr>)
                             (filter (\<lambda>e. \<not> has_pm_title e) (experiences p)))
           \<and> ((\<forall>e \<in> set (experiences p). \<not> has_pm_title e) \<longrightarrow>
                 resume_experiences r
                   = take 5 (map (\<lambda>e. e\<lparr>relevance_score := 0\<rparr>) (experiences p)))"
      unfolding t a
      using k0 ranked_empty_plain[of "experiences p"]
      by (simp add: scored_empty ranked_empty[symmetric])
  qed
  have dflt: "map_of category_weights category = None \<longrightarrow>
        (\<exists>a. analyze_in [(category, [kw]), (''industries'', [])] (Some jd) = Inr a
           \<and> keyword_scores a
               = (if str_contains kw (lower jd)
                  then [(kw, real (str_count kw (lower jd)) * 0.5)] else []))"
  proof
    assume w: "map_of category_weights category = None"
    have "map_of [(category, [kw]), (''industries'', [])] ''industries'' \<noteq> None" by simp
    from analyze_in_Some[OF this, of jd] show "\<exists>a. analyze_in [(category, [kw]), (''industries'', [])] (Some jd) = Inr a
           \<and> keyword_scores a
               = (if str_contains kw (lower jd)
                  then [(kw, real (str_count kw (lower jd)) * 0.5)] else [])"
      using default_weight_scores[OF w, of kw "lower jd"] by auto
  qed
  from none some dflt ranked_empty[of exps] ranked_empty_plain[of exps] show ?thesis
    by blast
qed

theorem empty_table_ranking_witness:
  "map_sum id (\<lambda>x. resume_experiences (fst x))
     (tailor_resume_in empty_categories
        (sample_profile
           [sample_experience ''Engineer'' [], sample_experience ''Product Manager'' [],
            sample_experience ''Analyst'' []] [])
        (Some ''sql'') None)
     = Inr [(sample_experience ''Product Manager'' [])\<lparr>relevance_score := 5\<rparr>,
            sample_experience ''Engineer'' [], sample_experience ''Analyst'' []]
   \<and> map_sum id (\<lambda>x. resume_experiences (fst x))
     (tailor_resume_in empty_categories
        (sample_profile [sample_experience ''Engineer'' [], sample_experience ''Analyst'' []] [])
        (Some ''sql'') None)
     = Inr [sample_experience ''Engineer'' [], sample_experience ''Analyst'' []]
   \<and> tailor_resume_in [(''core_skills'', [])]
        (sample_profile [sample_experience ''Engineer'' []] []) (Some ''sql'') None
     = Inl KeyError
   \<and> map_sum id keyword_scores
       (analyze_in [(''pm_frameworks'', [''mvp'']), (''industries'', [])] (Some ''MVP, mvp''))
     = Inr [(''mvp'', 1)]"
proof -
  have pm: "\<not> has_pm_title (sample_experience ''Engineer'' [])"
           "has_pm_title (sample_experience ''Product Manager'' [])"
           "\<not> has_pm_title (sample_experience ''Analyst'' [])"
    by (simp_all add: has_pm_title_def pm_titles_def sample_experience_def lower_def lower_char_def)
  have h: "\<forall>(c, kws) \<in> set empty_categories. kws = []"
    by (simp add: empty_categories_def)
  have h1: "\<forall>(c, kws) \<in> set [(''core_skills'', [] :: string list)]. kws = []" by simp
  have i: "map_of empty_categories ''industries'' \<noteq> None"
          "map_of [(''core_skills'', [] :: string list)] ''industries'' = None"
    by (simp_all add: empty_categories_def)
  have z: "(sample_experience t sk)\<lparr>relevance_score := 0\<rparr> = sample_experience t sk" for t sk
    by (simp add: sample_experience_def)
  have w: "map_of category_weights ''pm_frameworks'' = None"
    by (simp add: category_weights_def)
  have c: "lower ''MVP, mvp'' = ''mvp, mvp''" "str_contains ''mvp'' ''mvp, mvp''"
          "str_count ''mvp'' ''mvp, mvp'' = 2"
    by (simp_all add: str_count_def lower_def lower_char_def)
  have e: "experiences (sample_profile exps sk) = exps" for exps sk
    by (simp add: sample_profile_def)
  let ?P3 = "sample_profile
               [sample_experience ''Engineer'' [], sample_experience ''Product Manager'' [],
                sample_experience ''Analyst'' []] []"
  let ?P2 = "sample_profile
               [sample_experience ''Engineer'' [], sample_experience ''Analyst'' []] []"
  let ?P1 = "sample_profile [sample_experience ''Engineer'' []] []"
  have 1: "map_sum id (\<lambda>x. resume_experiences (fst x))
             (tailor_resume_in empty_categories ?P3 (Some ''sql'') None)
           = Inr [(sample_experience ''Product Manager'' [])\<lparr>relevance_score := 5\<rparr>,
                  sample_experience ''Engineer'' [], sample_experience ''Analyst'' []]"
    using empty_table_ranking[OF h, where jd = "''sql''" and fa = None and p = ?P3
            and exps = "[]" and category = "[]" and kw = "[]"] i(1)
    by (auto simp: pm z e)
  have 2: "map_sum id (\<lambda>x. resume_experiences (fst x))
             (tailor_resume_in empty_categories ?P2 (Some ''sql'') None)
           = Inr [sample_experience ''Engineer'' [], sample_experience ''Analyst'' []]"
    using empty_table_ranking[OF h, where jd = "''sql''" and fa = None and p = ?P2
            and exps = "[]" and category = "[]" and kw = "[]"] i(1)
    by (auto simp: pm z e)
  have 3: "tailor_resume_in [(''core_skills'', [])] ?P1 (Some ''sql'') None = Inl KeyError"
    using empty_table_ranking[OF h1, where jd = "''sql''" and fa = None and p = ?P1
            and exps = "[]" and category = "[]" and kw = "[]"] i(2)
    by blast
  have 4: "map_sum id keyword_scores
             (analyze_in [(''pm_frameworks'', [''mvp'']), (''industries'', [])]
                (Some ''MVP, mvp''))
           = Inr [(''mvp'', 1)]"
    using empty_table_ranking[OF h, where jd = "''MVP, mvp''" and fa = None and p = ?P1
            and exps = "[]" and category = "''pm_frameworks''" and kw = "''mvp''"] w
    by (auto simp: c)
  from 1 2 3 4 show ?thesis by blast
qed

text \<open>
  C3 as stated fails. On the shipped table with every phrase removed the experience
  titled "Product Manager" scores 5, not 0, and is ranked before the experience
  that precedes it in the input; on a table with no categories \<open>analyze\<close> raises
  \<open>KeyError\<close>; and a phrase of a category that has no weight scores 0.5 for its one
  occurrence, not 0.
\<close>

theorem empty_table_ranking_counterexample:
  "map_sum id (\<lambda>x. resume_experiences (fst x))
     (tailor_resume_in empty_categories
        (sample_profile
           [sample_experience ''Engineer'' [], sample_experience ''Product Manager'' []] [])
        (Some ''sql'') None)
     = Inr [(sample_experience ''Product Manager'' [])\<lparr>relevance_score := 5\<rparr>,
            sample_experience ''Engineer'' []]
   \<and> analyze_in [] (Some ''sql'') = Inl KeyError
   \<and> map_sum id keyword_scores
       (analyze_in [(''pm_frameworks'', [''mvp'']), (''industries'', [])] (Some ''mvp''))
     = Inr [(''mvp'', 1 / 2)]"
proof (intro conjI)
  show "map_sum id (\<lambda>x. resume_experiences (fst x))
     (tailor_resume_in empty_categories
        (sample_profile
           [sample_experience ''Engineer'' [], sample_experience ''Product Manager'' []] [])
        (Some ''sql'') None)
     = Inr [(sample_experience ''Product Manager'' [])\<lparr>relevance_score := 5\<rparr>,
            sample_experience ''Engineer'' []]"
    unfolding tailor_resume_in_def analyze_in_empty_sql
    by (simp add: eval_tailor_in)
  show "analyze_in [] (Some ''sql'') = Inl KeyError"
    by (simp add: analyze_in_def extract_company_info_in_def)
  show "map_sum id keyword_scores
       (analyze_in [(''pm_frameworks'', [''mvp'']), (''industries'', [])] (Some ''mvp''))
     = Inr [(''mvp'', 1 / 2)]"
    by (simp add: eval_analyze_in)
qed

text \<open>
  C4, as amended. \<open>analyze\<close> returns an analysis for every string; for the empty
  string every category has no keyword entry, the score map, the requirements and
  the company info are empty, and the summary reports zero keywords found.
\<close>

theorem analyze_total_on_strings:
  "(\<exists>a. analyze (Some jd) = Inr a)
   \<and> analyze (Some []) =
       Inr \<lparr>found_keywords =
              [(''core_skills'', []), (''technical_skills'', []),
               (''soft_skills'', []), (''industries'', [])],
            keyword_scores = [], requirements = [],
            company_info = \<lparr>industry = [], company_size = [], stage = [], culture = []\<rparr>,
            analysis_summary =
              ''Found 0 relevant PM keywords. Top focus areas: core_skills, technical_skills, soft_skills. Identified 0 key requirements.''\<rparr>"
proof
  show "\<exists>a. analyze (Some jd) = Inr a" using analyze_Some[of jd] by blast
  show "analyze (Some []) =
       Inr \<lparr>found_keywords =
              [(''core_skills'', []), (''technical_skills'', []),
               (''soft_skills'', []), (''industries'', [])],
            keyword_scores = [], requirements = [],
            company_info = \<lparr>industry = [], company_size = [], stage = [], culture = []\<rparr>,
            analysis_summary =
              ''Found 0 relevant PM keywords. Top focus areas: core_skills, technical_skills, soft_skills. Identified 0 key requirements.''\<rparr>"
    by (simp add: eval_analyze)
qed

text \<open>
  C4 as stated fails: on \<open>None\<close> for the job description \<open>analyze\<close> returns no analysis,
  it raises \<open>AttributeError\<close>.
\<close>

theorem analyze_null_counterexample:
  "analyze None = Inl AttributeError"
  by (simp add: analyze_def)

end
